theory Spec2Isabelle
  imports Main "HOL-Library.Word"
begin

section \<open>Data model\<close>

text \<open>
  The webhook dispatch engine of Formerr: \<^verbatim>\<open>app/webhooks/service.py\<close>
  (\<^verbatim>\<open>WebhookService\<close>), the enum of \<^verbatim>\<open>app/webhooks/models.py\<close>, the ORM rows of
  \<^verbatim>\<open>app/database/models.py\<close> and the submission flow of
  \<^verbatim>\<open>app/database/services.py\<close>.
\<close>

subsection \<open>Events, rows and wire values\<close>

datatype WebhookEvent =
    SUBMISSION_CREATED
  | SUBMISSION_UPDATED
  | FORM_CREATED
  | FORM_UPDATED
  | FORM_DELETED
  | USER_REGISTERED

text \<open>\<^verbatim>\<open>event.value\<close>: the string of each enum member.\<close>

fun event_value :: "WebhookEvent \<Rightarrow> string" where
  "event_value SUBMISSION_CREATED = ''submission.created''"
| "event_value SUBMISSION_UPDATED = ''submission.updated''"
| "event_value FORM_CREATED = ''form.created''"
| "event_value FORM_UPDATED = ''form.updated''"
| "event_value FORM_DELETED = ''form.deleted''"
| "event_value USER_REGISTERED = ''user.registered''"

type_synonym byte = "8 word"

text \<open>A \<^verbatim>\<open>datetime\<close> is kept as a count of microseconds; only its order of creation
  and its renderings (library functions, below) are used.\<close>

type_synonym datetime = nat

text \<open>JSON-like data (\<^verbatim>\<open>Dict[str, Any]\<close>), carried through and never inspected.\<close>

datatype json =
    JNull
  | JBool bool
  | JInt int
  | JStr string
  | JList "json list"
  | JObj "(string \<times> json) list"

text \<open>
  The exceptions the code tells apart: \<^verbatim>\<open>httpx.TimeoutException\<close> and every other
  subclass of \<^verbatim>\<open>Exception\<close>; each carries the text that \<^verbatim>\<open>str(e)\<close> gives.
\<close>

datatype exn = TimeoutException string | OtherException string

fun exn_str :: "exn \<Rightarrow> string" where
  "exn_str (TimeoutException m) = m"
| "exn_str (OtherException m) = m"

text \<open>Row of table \<^verbatim>\<open>webhooks\<close>; \<open>wh_id\<close> is the column \<^verbatim>\<open>id\<close>.\<close>

record Webhook =
  wh_id :: string
  form_id :: string
  url :: string
  events :: "string list"
  secret :: "string option"
  active :: bool
  last_triggered :: "datetime option"
  failure_count :: int

text \<open>Row of table \<^verbatim>\<open>forms\<close>, with the columns these flows read or write.\<close>

record Form =
  fm_id :: string
  owner_id :: int
  submission_count :: int
  last_submission :: "datetime option"

text \<open>Row of table \<^verbatim>\<open>submissions\<close>.\<close>

record Submission =
  sub_id :: string
  sub_form_id :: string
  answers :: "json list"
  submitter_email :: json
  submitter_name :: json
  submitter_ip_hash :: json
  submitter_user_id :: json
  submitted_at :: datetime

text \<open>
  The envelope dict \<^verbatim>\<open>webhook_payload\<close>; field \<open>p_k\<close> is the key \<^verbatim>\<open>k\<close>.
\<close>

record payload =
  p_event :: string
  p_timestamp :: string
  p_form_id :: string
  p_data :: json
  p_delivery_id :: string
  p_source :: string

text \<open>The arguments of \<^verbatim>\<open>client.post(url, content=..., headers=...)\<close>.\<close>

record request =
  q_url :: string
  q_content :: string
  q_headers :: "string \<rightharpoonup> string"

text \<open>
  The result dicts; field \<open>r_k\<close> is the key \<^verbatim>\<open>k\<close>, \<open>None\<close> where the dict has no
  such key. Every result dict of the source has the key \<^verbatim>\<open>success\<close>.
\<close>

record result =
  r_webhook_id :: "string option"
  r_success :: bool
  r_status_code :: "int option"
  r_response_time_ms :: "int option"
  r_url :: "string option"
  r_delivery_id :: "string option"
  r_error :: "string option"

text \<open>
  What \<^verbatim>\<open>await client.post(...)\<close> does: a response, with its \<^verbatim>\<open>status_code\<close> and
  the value of \<^verbatim>\<open>int(response.elapsed.total_seconds() * 1000)\<close>, or an exception.
\<close>

datatype http_outcome = Response int int | Raised exn

subsection \<open>Libraries and the outside world\<close>

text \<open>
  Library functions the code calls, and the behaviour of the clock, the random source,
  the network and the database session, as functions of how often each was used so far.
\<close>

record env =
  json_dumps :: "payload \<Rightarrow> exn + string"
  utf8_encode :: "string \<Rightarrow> exn + byte list"
  hmac_sha256 :: "byte list \<Rightarrow> byte list \<Rightarrow> byte list"
  isoformat :: "datetime \<Rightarrow> string"
  strftime :: "datetime \<Rightarrow> string"
  utcnow_at :: "nat \<Rightarrow> datetime"
  uuid4_at :: "nat \<Rightarrow> string"
  post_at :: "nat \<Rightarrow> request \<Rightarrow> http_outcome"
  db_fault_at :: "nat \<Rightarrow> exn option"

text \<open>
  The mutable world: the three tables, the counters of clock reads, UUID draws and
  session operations, and the log of the POSTs issued (oldest first).
\<close>

record state =
  webhooks :: "Webhook list"
  forms :: "Form list"
  submissions :: "Submission list"
  now_calls :: nat
  uuid_calls :: nat
  db_calls :: nat
  sent :: "request list"

definition utcnow :: "env \<Rightarrow> state \<Rightarrow> datetime \<times> state" where
  "utcnow e s = (utcnow_at e (now_calls s), s\<lparr>now_calls := Suc (now_calls s)\<rparr>)"

definition uuid4 :: "env \<Rightarrow> state \<Rightarrow> string \<times> state" where
  "uuid4 e s = (uuid4_at e (uuid_calls s), s\<lparr>uuid_calls := Suc (uuid_calls s)\<rparr>)"

text \<open>One awaited session operation (\<^verbatim>\<open>execute\<close>, \<^verbatim>\<open>commit\<close>, \<^verbatim>\<open>refresh\<close>): it may raise.\<close>

definition db_op :: "env \<Rightarrow> state \<Rightarrow> exn option \<times> state" where
  "db_op e s = (db_fault_at e (db_calls s), s\<lparr>db_calls := Suc (db_calls s)\<rparr>)"

section \<open>WebhookService\<close>

subsection \<open>create_signature\<close>

fun hex_digit :: "nat \<Rightarrow> char" where
  "hex_digit n = ''0123456789abcdef'' ! (n mod 16)"

text \<open>\<^verbatim>\<open>hexdigest()\<close>: two lowercase hexadecimal digits for each digest byte.\<close>

definition hexdigest :: "byte list \<Rightarrow> string" where
  "hexdigest bs = concat (map (\<lambda>b. [hex_digit (unat b div 16), hex_digit (unat b mod 16)]) bs)"

definition create_signature :: "env \<Rightarrow> string \<Rightarrow> string \<Rightarrow> exn + string" where
  "create_signature e payload_str secret_str =
     (case utf8_encode e secret_str of
        Inl x \<Rightarrow> Inl x
      | Inr key \<Rightarrow>
          (case utf8_encode e payload_str of
             Inl x \<Rightarrow> Inl x
           | Inr msg \<Rightarrow> Inr (''sha256='' @ hexdigest (hmac_sha256 e key msg))))"

subsection \<open>_send_webhook\<close>

text \<open>The dict literal \<^verbatim>\<open>headers\<close>.\<close>

definition base_headers :: "payload \<Rightarrow> (string \<rightharpoonup> string)" where
  "base_headers p =
     [''Content-Type'' \<mapsto> ''application/json'',
      ''User-Agent'' \<mapsto> ''Formerr-Webhooks/1.0 (BrunoV7)'',
      ''X-Formerr-Event'' \<mapsto> p_event p,
      ''X-Formerr-Delivery'' \<mapsto> p_delivery_id p,
      ''X-Formerr-Timestamp'' \<mapsto> p_timestamp p]"

text \<open>
  The statement \<^verbatim>\<open>if webhook.secret: headers["X-Formerr-Signature"] = ...\<close>; the
  secret is false when it is \<^verbatim>\<open>None\<close> or the empty string.
\<close>

definition add_signature ::
  "env \<Rightarrow> Webhook \<Rightarrow> string \<Rightarrow> (string \<rightharpoonup> string) \<Rightarrow> exn + (string \<rightharpoonup> string)" where
  "add_signature e webhook payload_str headers =
     (case secret webhook of
        None \<Rightarrow> Inr headers
      | Some sec \<Rightarrow>
          if sec = [] then Inr headers
          else (case create_signature e payload_str sec of
                  Inl x \<Rightarrow> Inl x
                | Inr signature \<Rightarrow> Inr (headers(''X-Formerr-Signature'' \<mapsto> signature))))"

text \<open>The three \<^verbatim>\<open>return\<close> statements under \<^verbatim>\<open>async with\<close>.\<close>

fun classify :: "Webhook \<Rightarrow> payload \<Rightarrow> http_outcome \<Rightarrow> result" where
  "classify webhook p (Response status_code elapsed_ms) =
     \<lparr>r_webhook_id = Some (wh_id webhook),
      r_success = (status_code < 400),
      r_status_code = Some status_code,
      r_response_time_ms = Some elapsed_ms,
      r_url = Some (url webhook),
      r_delivery_id = Some (p_delivery_id p),
      r_error = None\<rparr>"
| "classify webhook p (Raised (TimeoutException m)) =
     \<lparr>r_webhook_id = Some (wh_id webhook),
      r_success = False,
      r_status_code = None,
      r_response_time_ms = None,
      r_url = Some (url webhook),
      r_delivery_id = None,
      r_error = Some ''timeout''\<rparr>"
| "classify webhook p (Raised (OtherException m)) =
     \<lparr>r_webhook_id = Some (wh_id webhook),
      r_success = False,
      r_status_code = None,
      r_response_time_ms = None,
      r_url = Some (url webhook),
      r_delivery_id = None,
      r_error = Some (exn_str (OtherException m))\<rparr>"

text \<open>
  Lines 163 to 175: the body is serialised once (\<^verbatim>\<open>payload_str\<close>); that string is what
  is signed and what is passed as \<^verbatim>\<open>content\<close>.
\<close>

definition build_request :: "env \<Rightarrow> Webhook \<Rightarrow> payload \<Rightarrow> exn + request" where
  "build_request e webhook p =
     (case json_dumps e p of
        Inl x \<Rightarrow> Inl x
      | Inr payload_str \<Rightarrow>
          (case add_signature e webhook payload_str (base_headers p) of
             Inl x \<Rightarrow> Inl x
           | Inr headers \<Rightarrow>
               Inr \<lparr>q_url = url webhook, q_content = payload_str, q_headers = headers\<rparr>))"

text \<open>
  An exception of \<^verbatim>\<open>json.dumps\<close> or of \<^verbatim>\<open>create_signature\<close> leaves the function
  (\<open>Inl\<close>); what \<^verbatim>\<open>client.post\<close> raises is caught inside and becomes a result.
\<close>

definition send_webhook :: "env \<Rightarrow> state \<Rightarrow> Webhook \<Rightarrow> payload \<Rightarrow> (exn + result) \<times> state" where
  "send_webhook e s webhook p =
     (case build_request e webhook p of
        Inl x \<Rightarrow> (Inl x, s)
      | Inr req \<Rightarrow>
          (Inr (classify webhook p (post_at e (length (sent s)) req)),
           s\<lparr>sent := sent s @ [req]\<rparr>))"

subsection \<open>trigger_webhooks\<close>

text \<open>
  The \<^verbatim>\<open>select(Webhook).where(and_(...))\<close> of \<^verbatim>\<open>trigger_webhooks\<close>: the rows of the
  form that are active and whose \<^verbatim>\<open>events\<close> array contains the value of the event.
\<close>

definition find_active :: "state \<Rightarrow> string \<Rightarrow> WebhookEvent \<Rightarrow> Webhook list" where
  "find_active s fid event =
     filter (\<lambda>w. form_id w = fid \<and> active w \<and> event_value event \<in> set (events w)) (webhooks s)"

text \<open>The result dict of the \<^verbatim>\<open>except Exception as e\<close> branch of the loop.\<close>

definition failure_result :: "Webhook \<Rightarrow> exn \<Rightarrow> result" where
  "failure_result webhook x =
     \<lparr>r_webhook_id = Some (wh_id webhook),
      r_success = False,
      r_status_code = None,
      r_response_time_ms = None,
      r_url = Some (url webhook),
      r_delivery_id = None,
      r_error = Some (exn_str x)\<rparr>"

text \<open>
  The body of \<^verbatim>\<open>for webhook in webhooks\<close>: the result appended, the webhook object as
  the body leaves it, and the world.
\<close>

definition attempt :: "env \<Rightarrow> payload \<Rightarrow> Webhook \<Rightarrow> state \<Rightarrow> result \<times> Webhook \<times> state" where
  "attempt e p webhook s =
     (case send_webhook e s webhook p of
        (Inr res, s1) \<Rightarrow>
          (case utcnow e s1 of
             (t, s2) \<Rightarrow>
               (let w1 = webhook\<lparr>last_triggered := Some t\<rparr>
                in (res,
                    (if \<not> r_success res then w1\<lparr>failure_count := failure_count w1 + 1\<rparr>
                     else w1\<lparr>failure_count := 0\<rparr>),
                    s2)))
      | (Inl x, s1) \<Rightarrow>
          (failure_result webhook x,
           webhook\<lparr>failure_count := failure_count webhook + 1\<rparr>,
           s1))"

fun deliver_loop ::
  "env \<Rightarrow> payload \<Rightarrow> Webhook list \<Rightarrow> state \<Rightarrow> result list \<times> Webhook list \<times> state" where
  "deliver_loop e p [] s = ([], [], s)"
| "deliver_loop e p (w # ws) s =
     (case attempt e p w s of
        (res, w', s1) \<Rightarrow>
          (case deliver_loop e p ws s1 of
             (rs, ws', s2) \<Rightarrow> (res # rs, w' # ws', s2)))"

text \<open>\<^verbatim>\<open>db.commit()\<close> writes the changed objects to their rows, found by primary key.\<close>

definition store_webhook :: "Webhook \<Rightarrow> Webhook list \<Rightarrow> Webhook list" where
  "store_webhook w rows = map (\<lambda>row. if wh_id row = wh_id w then w else row) rows"

definition store_webhooks :: "Webhook list \<Rightarrow> Webhook list \<Rightarrow> Webhook list" where
  "store_webhooks ws rows = foldr store_webhook ws rows"

text \<open>
  The block \<^verbatim>\<open># Preparar payload completo\<close> (lines 123 to 131): one clock reading and
  one UUID, before the loop.
\<close>

definition prepare_payload ::
  "env \<Rightarrow> state \<Rightarrow> string \<Rightarrow> WebhookEvent \<Rightarrow> json \<Rightarrow> payload \<times> state" where
  "prepare_payload e s fid event data =
     (case utcnow e s of
        (t, s1) \<Rightarrow>
          (case uuid4 e s1 of
             (u, s2) \<Rightarrow>
               (\<lparr>p_event = event_value event,
                 p_timestamp = isoformat e t,
                 p_form_id = fid,
                 p_data = data,
                 p_delivery_id = u,
                 p_source = ''formerr_brunov7_beast_mode''\<rparr>,
                s2)))"

definition trigger_webhooks ::
  "env \<Rightarrow> state \<Rightarrow> string \<Rightarrow> WebhookEvent \<Rightarrow> json \<Rightarrow> (exn + result list) \<times> state" where
  "trigger_webhooks e s fid event data =
     (case db_op e s of
        (Some x, s0) \<Rightarrow> (Inl x, s0)
      | (None, s0) \<Rightarrow>
          (let found = find_active s0 fid event
           in if found = [] then (Inr [], s0)
              else
                (case prepare_payload e s0 fid event data of
                   (webhook_payload, s2) \<Rightarrow>
                     (case deliver_loop e webhook_payload found s2 of
                        (results, found', s3) \<Rightarrow>
                          (case db_op e s3 of
                             (Some x, s4) \<Rightarrow> (Inl x, s4)
                           | (None, s4) \<Rightarrow>
                               (Inr results,
                                s4\<lparr>webhooks := store_webhooks found' (webhooks s4)\<rparr>))))))"

subsection \<open>test_webhook\<close>

text \<open>\<^verbatim>\<open>scalar_one_or_none()\<close>: no row, the one row, or \<^verbatim>\<open>MultipleResultsFound\<close>.\<close>

fun scalar_one_or_none :: "'a list \<Rightarrow> exn + 'a option" where
  "scalar_one_or_none [] = Inr None"
| "scalar_one_or_none [x] = Inr (Some x)"
| "scalar_one_or_none (x # y # zs) = Inl (OtherException ''MultipleResultsFound'')"

text \<open>\<^verbatim>\<open>select(Webhook).join(Form).where(...)\<close>, the join being on the foreign key.\<close>

definition owned_webhooks :: "state \<Rightarrow> string \<Rightarrow> int \<Rightarrow> Webhook list" where
  "owned_webhooks s webhook_id owner =
     [w. w \<leftarrow> webhooks s, f \<leftarrow> forms s,
         fm_id f = form_id w \<and> wh_id w = webhook_id \<and> owner_id f = owner]"

text \<open>Characters outside ASCII are written as their UTF-8 bytes.\<close>

definition rocket :: string where
  "rocket = [CHR 0xF0, CHR 0x9F, CHR 0x9A, CHR 0x80]"

definition test_data :: json where
  "test_data =
     JObj [(''test'', JBool True),
           (''message'', JStr ''This is a test webhook from Formerr Beast Mode''),
           (''brunov7_says'', JStr (rocket @ '' WEBHOOK TEST SUCCESSFUL! '' @ rocket))]"

definition not_found :: result where
  "not_found =
     \<lparr>r_webhook_id = None,
      r_success = False,
      r_status_code = None,
      r_response_time_ms = None,
      r_url = None,
      r_delivery_id = None,
      r_error = Some ''Webhook not found''\<rparr>"

text \<open>The block \<^verbatim>\<open># Atualizar stats\<close> of \<^verbatim>\<open>test_webhook\<close> (lines 250 to 252).\<close>

definition test_stats :: "Webhook \<Rightarrow> datetime \<Rightarrow> result \<Rightarrow> Webhook" where
  "test_stats webhook t res =
     (let w1 = webhook\<lparr>last_triggered := Some t\<rparr>
      in if \<not> r_success res then w1\<lparr>failure_count := failure_count w1 + 1\<rparr> else w1)"

definition test_webhook :: "env \<Rightarrow> state \<Rightarrow> string \<Rightarrow> int \<Rightarrow> (exn + result) \<times> state" where
  "test_webhook e s webhook_id owner =
     (case db_op e s of
        (Some x, s0) \<Rightarrow> (Inl x, s0)
      | (None, s0) \<Rightarrow>
          (case scalar_one_or_none (owned_webhooks s0 webhook_id owner) of
             Inl x \<Rightarrow> (Inl x, s0)
           | Inr None \<Rightarrow> (Inr not_found, s0)
           | Inr (Some webhook) \<Rightarrow>
               (case utcnow e s0 of
                  (t, s1) \<Rightarrow>
                    (case uuid4 e s1 of
                       (u, s2) \<Rightarrow>
                         (let test_payload =
                                \<lparr>p_event = ''webhook.test'',
                                 p_timestamp = isoformat e t,
                                 p_form_id = form_id webhook,
                                 p_data = test_data,
                                 p_delivery_id = u,
                                 p_source = ''formerr_test_brunov7''\<rparr>
                          in (case send_webhook e s2 webhook test_payload of
                                (Inl x, s3) \<Rightarrow> (Inl x, s3)
                              | (Inr res, s3) \<Rightarrow>
                                  (case utcnow e s3 of
                                     (t', s4) \<Rightarrow>
                                       (case db_op e s4 of
                                          (Some x, s5) \<Rightarrow> (Inl x, s5)
                                        | (None, s5) \<Rightarrow>
                                            (Inr res,
                                             s5\<lparr>webhooks :=
                                                  store_webhook (test_stats webhook t' res)
                                                    (webhooks s5)\<rparr>)))))))))"

section \<open>The submission flow\<close>

definition generate_submission_id :: "env \<Rightarrow> state \<Rightarrow> string \<times> state" where
  "generate_submission_id e s =
     (case utcnow e s of
        (t, s1) \<Rightarrow>
          (case uuid4 e s1 of
             (u, s2) \<Rightarrow> (''sub_'' @ strftime e t @ ''_'' @ take 8 u, s2)))"

definition store_form :: "Form \<Rightarrow> Form list \<Rightarrow> Form list" where
  "store_form f rows = map (\<lambda>row. if fm_id row = fm_id f then f else row) rows"

text \<open>\<^verbatim>\<open>FormsService.increment_submission_count\<close>; \<open>Some x\<close> is the exception raised.\<close>

definition increment_submission_count :: "env \<Rightarrow> state \<Rightarrow> string \<Rightarrow> exn option \<times> state" where
  "increment_submission_count e s fid =
     (case db_op e s of
        (Some x, s1) \<Rightarrow> (Some x, s1)
      | (None, s1) \<Rightarrow>
          (case scalar_one_or_none (filter (\<lambda>f. fm_id f = fid) (forms s1)) of
             Inl x \<Rightarrow> (Some x, s1)
           | Inr None \<Rightarrow> (None, s1)
           | Inr (Some form) \<Rightarrow>
               (case utcnow e s1 of
                  (t, s2) \<Rightarrow>
                    (case db_op e s2 of
                       (Some x, s3) \<Rightarrow> (Some x, s3)
                     | (None, s3) \<Rightarrow>
                         (None,
                          s3\<lparr>forms :=
                               store_form
                                 (form\<lparr>submission_count := submission_count form + 1,
                                       last_submission := Some t\<rparr>)
                                 (forms s3)\<rparr>)))))"

text \<open>\<^verbatim>\<open>submitter_data.get(k) if submitter_data else None\<close>.\<close>

definition submitter_get :: "(string \<rightharpoonup> json) option \<Rightarrow> string \<Rightarrow> json" where
  "submitter_get submitter_data k =
     (case submitter_data of
        None \<Rightarrow> JNull
      | Some d \<Rightarrow> (case d k of None \<Rightarrow> JNull | Some v \<Rightarrow> v))"

text \<open>
  Lines 214 to 235 of \<^verbatim>\<open>create_submission\<close>: the row is built, added, committed and
  refreshed, and the form's counter incremented. The answers are taken as the dicts
  they are converted to.
\<close>

definition save_submission ::
  "env \<Rightarrow> state \<Rightarrow> string \<Rightarrow> json list \<Rightarrow> (string \<rightharpoonup> json) option
     \<Rightarrow> (exn + Submission) \<times> state" where
  "save_submission e s fid answers_dict submitter_data =
     (case generate_submission_id e s of
        (submission_id, s1) \<Rightarrow>
          (case utcnow e s1 of
             (t, s2) \<Rightarrow>
               (let submission =
                      \<lparr>sub_id = submission_id,
                       sub_form_id = fid,
                       answers = answers_dict,
                       submitter_email = submitter_get submitter_data ''email'',
                       submitter_name = submitter_get submitter_data ''name'',
                       submitter_ip_hash = submitter_get submitter_data ''ip_hash'',
                       submitter_user_id = submitter_get submitter_data ''user_id'',
                       submitted_at = t\<rparr>
                in (case db_op e s2 of
                      (Some x, s3) \<Rightarrow> (Inl x, s3)
                    | (None, s3) \<Rightarrow>
                        (case db_op e (s3\<lparr>submissions := submissions s3 @ [submission]\<rparr>) of
                           (Some x, s4) \<Rightarrow> (Inl x, s4)
                         | (None, s4) \<Rightarrow>
                             (case increment_submission_count e s4 fid of
                                (Some x, s5) \<Rightarrow> (Inl x, s5)
                              | (None, s5) \<Rightarrow> (Inr submission, s5)))))))"

text \<open>The dict \<^verbatim>\<open>webhook_payload\<close> of \<^verbatim>\<open>create_submission\<close>.\<close>

definition submission_payload :: "env \<Rightarrow> Submission \<Rightarrow> json" where
  "submission_payload e submission =
     JObj [(''submission_id'', JStr (sub_id submission)),
           (''submitter_email'', submitter_email submission),
           (''submitter_name'', submitter_name submission),
           (''answers'', JList (answers submission)),
           (''submitted_at'', JStr (isoformat e (submitted_at submission))),
           (''total_answers'', JInt (int (length (answers submission))))]"

text \<open>
  \<^verbatim>\<open>create_submission\<close>: after the save, the dispatch runs under
  \<^verbatim>\<open>try: ... except Exception\<close>, whose handler only prints; the submission is returned
  whatever the dispatch gave.
\<close>

definition create_submission ::
  "env \<Rightarrow> state \<Rightarrow> string \<Rightarrow> json list \<Rightarrow> (string \<rightharpoonup> json) option
     \<Rightarrow> (exn + Submission) \<times> state" where
  "create_submission e s fid answers_dict submitter_data =
     (case save_submission e s fid answers_dict submitter_data of
        (Inl x, s1) \<Rightarrow> (Inl x, s1)
      | (Inr submission, s1) \<Rightarrow>
          (case trigger_webhooks e s1 fid SUBMISSION_CREATED (submission_payload e submission) of
             (Inl x, s2) \<Rightarrow> (Inr submission, s2)
           | (Inr results, s2) \<Rightarrow> (Inr submission, s2)))"

section \<open>Notions used to state the properties\<close>

text \<open>The envelope that one call of \<^verbatim>\<open>trigger_webhooks\<close> prepares in world \<open>s\<close>.\<close>

definition envelope :: "env \<Rightarrow> state \<Rightarrow> string \<Rightarrow> WebhookEvent \<Rightarrow> json \<Rightarrow> payload" where
  "envelope e s fid ev d = fst (prepare_payload e s fid ev d)"

text \<open>Whether a request could be built for a subscriber, so that a POST is issued.\<close>

definition built :: "env \<Rightarrow> payload \<Rightarrow> Webhook \<Rightarrow> bool" where
  "built e p w = (case build_request e w p of Inl x \<Rightarrow> False | Inr req \<Rightarrow> True)"

text \<open>The number of POSTs that the loop issues before it reaches subscriber \<open>i\<close>.\<close>

definition posts_before :: "env \<Rightarrow> payload \<Rightarrow> Webhook list \<Rightarrow> nat \<Rightarrow> nat" where
  "posts_before e p ws i = length (filter (built e p) (take i ws))"

text \<open>
  The result recorded for one subscriber, from its own request and from what the network
  answers to the \<open>k\<close>-th POST.
\<close>

definition outcome_result :: "env \<Rightarrow> payload \<Rightarrow> Webhook \<Rightarrow> nat \<Rightarrow> result" where
  "outcome_result e p w k =
     (case build_request e w p of
        Inl x \<Rightarrow> failure_result w x
      | Inr req \<Rightarrow> classify w p (post_at e k req))"

text \<open>The \<^verbatim>\<open>X-Formerr-Delivery\<close> headers of the POSTs issued so far.\<close>

definition delivery_ids :: "state \<Rightarrow> string option list" where
  "delivery_ids s = map (\<lambda>r. q_headers r ''X-Formerr-Delivery'') (sent s)"

subsection \<open>A worked scenario\<close>

text \<open>
  Form \<^verbatim>\<open>form_42\<close> has two active subscriptions to \<^verbatim>\<open>submission.created\<close>: the
  endpoint of \<open>hook_a\<close> times out, the endpoint of \<open>hook_b\<close> answers 200. The library
  functions are simple stand-ins; successive UUIDs differ.
\<close>

definition demo_env :: env where
  "demo_env =
     \<lparr>json_dumps = (\<lambda>p. Inr (p_event p @ '' '' @ p_delivery_id p)),
      utf8_encode = (\<lambda>t. Inr (map (\<lambda>c. of_nat (of_char c)) t)),
      hmac_sha256 = (\<lambda>key msg. take 2 (msg @ key)),
      isoformat = (\<lambda>t. ''T'' @ replicate t CHR ''+''),
      strftime = (\<lambda>t. ''D'' @ replicate t CHR ''+''),
      utcnow_at = (\<lambda>n. n),
      uuid4_at = (\<lambda>n. ''uuid-'' @ replicate n CHR ''x''),
      post_at = (\<lambda>n req. if q_url req = ''https://a.example/hook''
                          then Raised (TimeoutException ''ReadTimeout'')
                          else Response 200 12),
      db_fault_at = (\<lambda>n. None)\<rparr>"

definition hook_a :: Webhook where
  "hook_a =
     \<lparr>wh_id = ''webhook_a'', form_id = ''form_42'', url = ''https://a.example/hook'',
      events = [''submission.created''], secret = Some ''whsec_abc'', active = True,
      last_triggered = None, failure_count = 0\<rparr>"

definition hook_b :: Webhook where
  "hook_b =
     \<lparr>wh_id = ''webhook_b'', form_id = ''form_42'', url = ''https://b.example/hook'',
      events = [''form.updated'', ''submission.created''], secret = None, active = True,
      last_triggered = None, failure_count = 3\<rparr>"

definition demo_state :: state where
  "demo_state =
     \<lparr>webhooks = [hook_a, hook_b],
      forms = [\<lparr>fm_id = ''form_42'', owner_id = 7, submission_count = 0,
                last_submission = None\<rparr>],
      submissions = [], now_calls = 0, uuid_calls = 0, db_calls = 0, sent = []\<rparr>"

text \<open>The envelope of the worked scenario.\<close>

definition demo_payload :: payload where
  "demo_payload = envelope demo_env demo_state ''form_42'' SUBMISSION_CREATED JNull"

text \<open>The same world, where the commit that ends \<^verbatim>\<open>trigger_webhooks\<close> raises.\<close>

definition commit_fails_env :: env where
  "commit_fails_env =
     demo_env\<lparr>db_fault_at := (\<lambda>n. if n = 1 then Some (OtherException ''commit failed'') else None)\<rparr>"

text \<open>The same world, where one endpoint refuses the connection and the other answers 500.\<close>

definition rejecting_env :: env where
  "rejecting_env =
     demo_env\<lparr>post_at := (\<lambda>n req. if q_url req = ''https://a.example/hook''
                                   then Raised (OtherException ''ConnectError'')
                                   else Response 500 12)\<rparr>"

text \<open>
  The same world, where no endpoint can be reached and the sixth session operation (the
  commit of the dispatch that follows a save) raises.
\<close>

definition dispatch_down_env :: env where
  "dispatch_down_env =
     demo_env\<lparr>post_at := (\<lambda>n req. Raised (OtherException ''ConnectError'')),
              db_fault_at := (\<lambda>n. if n = 5 then Some (OtherException ''commit failed'') else None)\<rparr>"

text \<open>The row that the save of the worked scenario creates.\<close>

definition demo_submission :: Submission where
  "demo_submission =
     \<lparr>sub_id = ''sub_D_uuid-'', sub_form_id = ''form_42'',
      answers = [JStr ''yes''], submitter_email = JStr ''a@b.c'', submitter_name = JNull,
      submitter_ip_hash = JNull, submitter_user_id = JNull,
      submitted_at = 1\<rparr>"

section \<open>Auxiliary facts\<close>

lemmas demo_defs = demo_env_def demo_state_def hook_a_def hook_b_def

lemmas run_defs = trigger_webhooks_def db_op_def find_active_def prepare_payload_def
  utcnow_def uuid4_def attempt_def send_webhook_def build_request_def add_signature_def
  create_signature_def base_headers_def store_webhooks_def store_webhook_def

subsection \<open>Signature and headers\<close>

lemma hex_digit_lower: "hex_digit n \<in> set ''0123456789abcdef''"
proof -
  have "n mod 16 < length ''0123456789abcdef''" by simp
  then show ?thesis unfolding hex_digit.simps by (rule nth_mem)
qed

lemma hexdigest_lower: "set (hexdigest bs) \<subseteq> set ''0123456789abcdef''"
  unfolding hexdigest_def using hex_digit_lower by (induction bs) auto

lemma hexdigest_length: "length (hexdigest bs) = 2 * length bs"
  unfolding hexdigest_def by (induction bs) auto

lemma add_signature_signed:
  assumes "secret w = Some sec" "sec \<noteq> []" "add_signature e w body h = Inr h'"
  shows "\<exists>key msg. utf8_encode e sec = Inr key \<and> utf8_encode e body = Inr msg
           \<and> h' = h(''X-Formerr-Signature'' \<mapsto> ''sha256='' @ hexdigest (hmac_sha256 e key msg))"
  using assms by (auto simp: add_signature_def create_signature_def split: sum.splits)

lemma build_request_base:
  assumes "build_request e w p = Inr req"
  shows "q_headers req ''Content-Type'' = Some ''application/json''"
    and "q_headers req ''User-Agent'' = Some ''Formerr-Webhooks/1.0 (BrunoV7)''"
    and "q_headers req ''X-Formerr-Event'' = Some (p_event p)"
    and "q_headers req ''X-Formerr-Delivery'' = Some (p_delivery_id p)"
    and "q_headers req ''X-Formerr-Timestamp'' = Some (p_timestamp p)"
    and "(q_headers req ''X-Formerr-Signature'' = None) = (secret w = None \<or> secret w = Some [])"
  using assms
  by (auto simp: build_request_def add_signature_def base_headers_def
        split: sum.splits option.splits if_splits)

subsection \<open>One attempt and the loop\<close>

lemma send_webhook_cases:
  "send_webhook e s w p = (out, s') \<Longrightarrow>
     (\<exists>x. build_request e w p = Inl x \<and> out = Inl x \<and> s' = s) \<or>
     (\<exists>req. build_request e w p = Inr req
        \<and> out = Inr (classify w p (post_at e (length (sent s)) req))
        \<and> s' = s\<lparr>sent := sent s @ [req]\<rparr>)"
  by (auto simp: send_webhook_def split: sum.splits)

lemma attempt_cases:
  assumes "attempt e p w s = (res, w', s')"
  shows "(\<exists>x. build_request e w p = Inl x \<and> res = failure_result w x
            \<and> w' = w\<lparr>failure_count := failure_count w + 1\<rparr> \<and> s' = s) \<or>
         (\<exists>req. build_request e w p = Inr req
            \<and> res = classify w p (post_at e (length (sent s)) req)
            \<and> w' = w\<lparr>last_triggered := Some (utcnow_at e (now_calls s)),
                     failure_count := (if r_success res then 0 else failure_count w + 1)\<rparr>
            \<and> s' = s\<lparr>sent := sent s @ [req], now_calls := Suc (now_calls s)\<rparr>)"
  using assms
  by (auto simp: attempt_def send_webhook_def utcnow_def Let_def split: sum.splits)

lemma attempt_frame:
  assumes "attempt e p w s = (res, w', s')"
  shows "db_calls s' = db_calls s" "uuid_calls s' = uuid_calls s"
    "webhooks s' = webhooks s" "forms s' = forms s" "submissions s' = submissions s"
    "wh_id w' = wh_id w"
  using attempt_cases [OF assms] by auto

lemma deliver_loop_frame:
  "deliver_loop e p ws s = (rs, ws', s') \<Longrightarrow>
     db_calls s' = db_calls s \<and> uuid_calls s' = uuid_calls s \<and> webhooks s' = webhooks s
     \<and> forms s' = forms s \<and> submissions s' = submissions s
     \<and> length rs = length ws \<and> length ws' = length ws"
proof (induction ws arbitrary: s rs ws' s')
  case Nil
  then show ?case by simp
next
  case (Cons w ws)
  obtain res w1 s1 where a: "attempt e p w s = (res, w1, s1)" by (metis prod_cases3)
  obtain rs2 ws2 s2 where l: "deliver_loop e p ws s1 = (rs2, ws2, s2)" by (metis prod_cases3)
  from Cons.prems a l have eq: "rs = res # rs2" "ws' = w1 # ws2" "s' = s2" by auto
  from Cons.IH [OF l] attempt_frame [OF a] eq show ?case by simp
qed

lemma attempt_result:
  assumes "attempt e p w s = (res, w', s')"
  shows "res = outcome_result e p w (length (sent s))"
    and "length (sent s') = length (sent s) + (if built e p w then 1 else 0)"
    and "failure_count w' = (if r_success res then 0 else failure_count w + 1)"
  using attempt_cases [OF assms]
  by (auto simp: outcome_result_def built_def failure_result_def)

lemma deliver_loop_nth:
  "deliver_loop e p ws s = (rs, ws', s') \<Longrightarrow> i < length ws \<Longrightarrow>
     rs ! i = outcome_result e p (ws ! i) (length (sent s) + posts_before e p ws i)
     \<and> failure_count (ws' ! i) = (if r_success (rs ! i) then 0 else failure_count (ws ! i) + 1)
     \<and> wh_id (ws' ! i) = wh_id (ws ! i)"
proof (induction ws arbitrary: s rs ws' s' i)
  case Nil
  then show ?case by simp
next
  case (Cons w ws)
  obtain res w1 s1 where a: "attempt e p w s = (res, w1, s1)" by (metis prod_cases3)
  obtain rs2 ws2 s2 where l: "deliver_loop e p ws s1 = (rs2, ws2, s2)" by (metis prod_cases3)
  from Cons.prems a l have eq: "rs = res # rs2" "ws' = w1 # ws2" "s' = s2" by auto
  show ?case
  proof (cases i)
    case 0
    with eq attempt_result [OF a] attempt_frame(6) [OF a] show ?thesis
      by (simp add: posts_before_def)
  next
    case (Suc j)
    with Cons.prems have j: "j < length ws" by simp
    from Cons.IH [OF l j] Suc eq attempt_result(2) [OF a] show ?thesis
      by (simp add: posts_before_def)
  qed
qed

lemma deliver_loop_sent:
  "deliver_loop e p ws s = (rs, ws', s') \<Longrightarrow>
     take (length (sent s)) (sent s') = sent s
     \<and> (\<forall>r \<in> set (drop (length (sent s)) (sent s')).
           q_headers r ''X-Formerr-Delivery'' = Some (p_delivery_id p))"
proof (induction ws arbitrary: s rs ws' s')
  case Nil
  then show ?case by simp
next
  case (Cons w ws)
  obtain res w1 s1 where a: "attempt e p w s = (res, w1, s1)" by (metis prod_cases3)
  obtain rs2 ws2 s2 where l: "deliver_loop e p ws s1 = (rs2, ws2, s2)" by (metis prod_cases3)
  from Cons.prems a l have eq: "s' = s2" by auto
  from Cons.IH [OF l] have ih1: "take (length (sent s1)) (sent s2) = sent s1"
    and ih2: "\<forall>r \<in> set (drop (length (sent s1)) (sent s2)).
           q_headers r ''X-Formerr-Delivery'' = Some (p_delivery_id p)" by auto
  from attempt_cases [OF a] consider
      (raised) "s1 = s"
    | (posted) req where "build_request e w p = Inr req" "sent s1 = sent s @ [req]"
    by auto
  then show ?case
  proof cases
    case raised
    with ih1 ih2 eq show ?thesis by simp
  next
    case posted
    have hd: "q_headers req ''X-Formerr-Delivery'' = Some (p_delivery_id p)"
      using posted(1)
      by (auto simp: build_request_def add_signature_def base_headers_def
          split: sum.splits option.splits if_splits)
    from ih1 posted(2) have s2: "sent s2 = sent s @ [req] @ drop (Suc (length (sent s))) (sent s2)"
      by (metis append_take_drop_id length_append_singleton append_assoc)
    then have t: "take (length (sent s)) (sent s2) = sent s"
      by (metis append_eq_conv_conj)
    from s2 have d: "drop (length (sent s)) (sent s2) = req # drop (Suc (length (sent s))) (sent s2)"
      by (metis append_eq_conv_conj append_Cons append_Nil)
    from ih2 posted(2) have "\<forall>r \<in> set (drop (Suc (length (sent s))) (sent s2)).
           q_headers r ''X-Formerr-Delivery'' = Some (p_delivery_id p)" by simp
    with t d hd eq show ?thesis by simp
  qed
qed

subsection \<open>The whole dispatch\<close>

lemma prepare_payload_eq:
  "prepare_payload e s fid ev d =
     (\<lparr>p_event = event_value ev, p_timestamp = isoformat e (utcnow_at e (now_calls s)),
       p_form_id = fid, p_data = d, p_delivery_id = uuid4_at e (uuid_calls s),
       p_source = ''formerr_brunov7_beast_mode''\<rparr>,
      s\<lparr>now_calls := Suc (now_calls s), uuid_calls := Suc (uuid_calls s)\<rparr>)"
  by (simp add: prepare_payload_def utcnow_def uuid4_def)

lemma trigger_webhooks_cases:
  assumes "trigger_webhooks e s fid ev d = (out, s')"
  shows "(\<exists>x. db_fault_at e (db_calls s) = Some x \<and> out = Inl x \<and> sent s' = sent s
             \<and> webhooks s' = webhooks s \<and> submissions s' = submissions s) \<or>
         (db_fault_at e (db_calls s) = None \<and> find_active s fid ev = [] \<and> out = Inr []
             \<and> sent s' = sent s \<and> webhooks s' = webhooks s \<and> submissions s' = submissions s) \<or>
         (\<exists>rs ws' s3. db_fault_at e (db_calls s) = None \<and> find_active s fid ev \<noteq> []
             \<and> deliver_loop e (envelope e s fid ev d) (find_active s fid ev)
                  (s\<lparr>db_calls := Suc (db_calls s), now_calls := Suc (now_calls s),
                     uuid_calls := Suc (uuid_calls s)\<rparr>) = (rs, ws', s3)
             \<and> sent s' = sent s3 \<and> submissions s' = submissions s
             \<and> (case db_fault_at e (Suc (db_calls s)) of
                   Some x \<Rightarrow> out = Inl x \<and> webhooks s' = webhooks s
                 | None \<Rightarrow> out = Inr rs \<and> webhooks s' = store_webhooks ws' (webhooks s)))"
proof (cases "db_fault_at e (db_calls s)")
  case (Some x)
  with assms show ?thesis by (auto simp: trigger_webhooks_def db_op_def)
next
  case None
  let ?s0 = "s\<lparr>db_calls := Suc (db_calls s)\<rparr>"
  have fa: "find_active ?s0 fid ev = find_active s fid ev" by (simp add: find_active_def)
  show ?thesis
  proof (cases "find_active s fid ev = []")
    case True
    with assms None fa show ?thesis by (auto simp: trigger_webhooks_def db_op_def)
  next
    case False
    let ?s2 = "s\<lparr>db_calls := Suc (db_calls s), now_calls := Suc (now_calls s),
                     uuid_calls := Suc (uuid_calls s)\<rparr>"
    have pp: "prepare_payload e ?s0 fid ev d = (envelope e s fid ev d, ?s2)"
      by (simp add: prepare_payload_eq envelope_def)
    obtain rs ws' s3 where l: "deliver_loop e (envelope e s fid ev d) (find_active s fid ev) ?s2 = (rs, ws', s3)"
      by (metis prod_cases3)
    from deliver_loop_frame [OF l] have fr: "db_calls s3 = Suc (db_calls s)"
      "webhooks s3 = webhooks s" "submissions s3 = submissions s" by simp_all
    from assms None False fa pp l fr show ?thesis
      by (auto simp: trigger_webhooks_def db_op_def Let_def split: option.splits)
  qed
qed

lemma demo_found: "find_active demo_state ''form_42'' SUBMISSION_CREATED = [hook_a, hook_b]"
  by (simp add: find_active_def demo_defs)

lemma demo_delivery_ids:
  "delivery_ids (snd (trigger_webhooks demo_env demo_state ''form_42'' SUBMISSION_CREATED JNull))
     = [Some ''uuid-'', Some ''uuid-'']"
  by (simp add: delivery_ids_def run_defs demo_defs)



lemma demo_results:
  "fst (trigger_webhooks demo_env demo_state ''form_42'' SUBMISSION_CREATED JNull) =
     Inr [\<lparr>r_webhook_id = Some ''webhook_a'', r_success = False,
           r_status_code = None, r_response_time_ms = None,
           r_url = Some ''https://a.example/hook'', r_delivery_id = None,
           r_error = Some ''timeout''\<rparr>,
          \<lparr>r_webhook_id = Some ''webhook_b'', r_success = True,
           r_status_code = Some 200, r_response_time_ms = Some 12,
           r_url = Some ''https://b.example/hook'',
           r_delivery_id = Some ''uuid-'', r_error = None\<rparr>]"
  by (simp add: run_defs demo_defs)

lemma deliver_loop_requests:
  "deliver_loop e p ws s = (rs, ws', s') \<Longrightarrow>
     \<forall>r \<in> set (drop (length (sent s)) (sent s')). \<exists>w \<in> set ws. build_request e w p = Inr r"
proof (induction ws arbitrary: s rs ws' s')
  case Nil
  then show ?case by simp
next
  case (Cons w ws)
  obtain res w1 s1 where a: "attempt e p w s = (res, w1, s1)" by (metis prod_cases3)
  obtain rs2 ws2 s2 where l: "deliver_loop e p ws s1 = (rs2, ws2, s2)" by (metis prod_cases3)
  from Cons.prems a l have eq: "s' = s2" by auto
  from Cons.IH [OF l] have ih: "\<forall>r \<in> set (drop (length (sent s1)) (sent s2)).
           \<exists>v \<in> set ws. build_request e v p = Inr r" .
  from deliver_loop_sent [OF l] have tk: "take (length (sent s1)) (sent s2) = sent s1" by simp
  from attempt_cases [OF a] consider
      (raised) "s1 = s"
    | (posted) req where "build_request e w p = Inr req" "sent s1 = sent s @ [req]"
    by auto
  then show ?case
  proof cases
    case raised
    with ih eq show ?thesis by auto
  next
    case posted
    from tk posted(2) have s2: "sent s2 = sent s @ [req] @ drop (Suc (length (sent s))) (sent s2)"
      by (metis append_take_drop_id length_append_singleton append_assoc)
    then have d: "drop (length (sent s)) (sent s2) = req # drop (Suc (length (sent s))) (sent s2)"
      by (metis append_eq_conv_conj append_Cons append_Nil)
    from ih posted(2) have "\<forall>r \<in> set (drop (Suc (length (sent s))) (sent s2)).
           \<exists>v \<in> set ws. build_request e v p = Inr r" by simp
    with d posted(1) eq show ?thesis by auto
  qed
qed

lemma build_request_content:
  "build_request e w p = Inr req \<Longrightarrow> json_dumps e p = Inr (q_content req)"
  by (auto simp: build_request_def split: sum.splits)

lemma trigger_webhooks_uuid_calls:
  assumes "trigger_webhooks e s fid ev d = (out, s')"
  shows "uuid_calls s' =
           (if db_fault_at e (db_calls s) = None \<and> find_active s fid ev \<noteq> []
            then Suc (uuid_calls s) else uuid_calls s)"
proof (cases "db_fault_at e (db_calls s)")
  case (Some x)
  with assms show ?thesis by (auto simp: trigger_webhooks_def db_op_def)
next
  case None
  let ?s0 = "s\<lparr>db_calls := Suc (db_calls s)\<rparr>"
  have fa: "find_active ?s0 fid ev = find_active s fid ev" by (simp add: find_active_def)
  show ?thesis
  proof (cases "find_active s fid ev = []")
    case True
    with assms None fa show ?thesis by (auto simp: trigger_webhooks_def db_op_def)
  next
    case False
    let ?s2 = "s\<lparr>db_calls := Suc (db_calls s), now_calls := Suc (now_calls s),
                     uuid_calls := Suc (uuid_calls s)\<rparr>"
    have pp: "prepare_payload e ?s0 fid ev d = (envelope e s fid ev d, ?s2)"
      by (simp add: prepare_payload_eq envelope_def)
    obtain rs ws' s3 where l: "deliver_loop e (envelope e s fid ev d) (find_active s fid ev) ?s2 = (rs, ws', s3)"
      by (metis prod_cases3)
    from deliver_loop_frame [OF l] have fr: "uuid_calls s3 = Suc (uuid_calls s)" by simp
    from assms None False fa pp l fr show ?thesis
      by (auto simp: trigger_webhooks_def db_op_def Let_def split: option.splits)
  qed
qed

lemma demo_contents:
  "map q_content (sent (snd (trigger_webhooks demo_env demo_state ''form_42'' SUBMISSION_CREATED JNull)))
     = [''submission.created uuid-'', ''submission.created uuid-'']"
  by (simp add: run_defs demo_defs)



subsection \<open>Writing rows back\<close>

lemma store_webhook_ids: "map wh_id (store_webhook w rows) = map wh_id rows"
  by (induction rows) (auto simp: store_webhook_def)

lemma store_webhooks_ids: "map wh_id (store_webhooks ws rows) = map wh_id rows"
  by (induction ws) (auto simp: store_webhooks_def store_webhook_ids)

lemma store_webhook_mem:
  "wh_id w \<in> wh_id ` set rows \<Longrightarrow> w \<in> set (store_webhook w rows)"
  by (induction rows) (auto simp: store_webhook_def)

lemma store_webhook_other:
  "v \<in> set rows \<Longrightarrow> wh_id v \<noteq> wh_id w \<Longrightarrow> v \<in> set (store_webhook w rows)"
  by (induction rows) (auto simp: store_webhook_def)

lemma store_webhooks_mem:
  "distinct (map wh_id ws) \<Longrightarrow> w \<in> set ws \<Longrightarrow> wh_id w \<in> wh_id ` set rows
     \<Longrightarrow> w \<in> set (store_webhooks ws rows)"
proof (induction ws)
  case Nil
  then show ?case by simp
next
  case (Cons a ws)
  have unf: "store_webhooks (a # ws) rows = store_webhook a (store_webhooks ws rows)"
    by (simp add: store_webhooks_def)
  have ids: "wh_id ` set (store_webhooks ws rows) = wh_id ` set rows"
    using arg_cong [OF store_webhooks_ids [of ws rows], of set] by simp
  show ?case
  proof (cases "w = a")
    case True
    with Cons.prems ids show ?thesis unfolding unf by (simp add: store_webhook_mem)
  next
    case False
    with Cons.prems have m: "w \<in> set ws" by simp
    from Cons.prems(1) have "wh_id a \<notin> set (map wh_id ws)" by simp
    moreover from m have "wh_id w \<in> set (map wh_id ws)" by simp
    ultimately have ne: "wh_id w \<noteq> wh_id a" by metis
    from Cons.prems have "distinct (map wh_id ws)" by simp
    from Cons.IH [OF this m Cons.prems(3)] ne show ?thesis
      unfolding unf by (rule store_webhook_other)
  qed
qed

lemma deliver_loop_ids:
  assumes "deliver_loop e p ws s = (rs, ws', s')"
  shows "map wh_id ws' = map wh_id ws"
proof (rule nth_equalityI)
  from deliver_loop_frame [OF assms] show "length (map wh_id ws') = length (map wh_id ws)" by simp
next
  fix i assume "i < length (map wh_id ws')"
  with deliver_loop_frame [OF assms] have i: "i < length ws" "i < length ws'" by simp_all
  with deliver_loop_nth [OF assms i(1)] show "map wh_id ws' ! i = map wh_id ws ! i" by simp
qed

lemma owned_webhooks_mem: "owned_webhooks s wid owner = [w] \<Longrightarrow> w \<in> set (webhooks s)"
proof -
  assume a: "owned_webhooks s wid owner = [w]"
  have "set (owned_webhooks s wid owner) \<subseteq> set (webhooks s)"
    by (auto simp: owned_webhooks_def)
  with a show ?thesis by simp
qed

lemma demo_owned: "owned_webhooks demo_state ''webhook_b'' 7 = [hook_b]"
  by (simp add: owned_webhooks_def demo_defs)

lemma demo_test:
  "map_sum id r_success (fst (test_webhook demo_env demo_state ''webhook_b'' 7)) = Inr True"
  by (simp add: test_webhook_def db_op_def utcnow_def uuid4_def send_webhook_def
        build_request_def add_signature_def owned_webhooks_def demo_defs)

subsection \<open>The save of a submission\<close>

lemma increment_submission_count_frame:
  "increment_submission_count e s fid = (out, s') \<Longrightarrow>
     submissions s' = submissions s \<and> webhooks s' = webhooks s"
  by (auto simp: increment_submission_count_def db_op_def utcnow_def
        split: option.splits sum.splits prod.splits)

lemma save_submission_saved:
  assumes "save_submission e s fid a sd = (Inr sub, s1)"
  shows "submissions s1 = submissions s @ [sub]"
proof -
  from assms obtain s4 where
    i: "increment_submission_count e s4 fid = (None, s1)"
    and s4: "submissions s4 = submissions s @ [sub]"
    by (auto simp: save_submission_def generate_submission_id_def db_op_def utcnow_def uuid4_def
          Let_def split: option.splits prod.splits)
  from increment_submission_count_frame [OF i] s4 show ?thesis by simp
qed

lemma demo_save:
  "fst (save_submission dispatch_down_env demo_state ''form_42'' [JStr ''yes'']
          (Some [''email'' \<mapsto> JStr ''a@b.c''])) = Inr demo_submission"
  by (simp add: save_submission_def generate_submission_id_def increment_submission_count_def
        submitter_get_def store_form_def db_op_def utcnow_def uuid4_def Let_def
        dispatch_down_env_def demo_defs demo_submission_def)

lemma demo_dispatch_fails:
  "fst (trigger_webhooks dispatch_down_env
         (snd (save_submission dispatch_down_env demo_state ''form_42'' [JStr ''yes'']
            (Some [''email'' \<mapsto> JStr ''a@b.c''])))
         ''form_42'' SUBMISSION_CREATED (submission_payload dispatch_down_env demo_submission))
     = Inl (OtherException ''commit failed'')"
  by (simp add: save_submission_def generate_submission_id_def increment_submission_count_def
        submitter_get_def store_form_def run_defs Let_def
        dispatch_down_env_def demo_defs demo_submission_def)

section \<open>Delivery ids of a fan-out\<close>

text \<open>
  C1 (as stated, refuted): in the worked scenario one event fans out to two
  subscriptions, and the two \<^verbatim>\<open>X-Formerr-Delivery\<close> headers sent are equal, so the
  delivery ids of a fan-out are not pairwise distinct.
\<close>

theorem trigger_webhooks_delivery_ids_not_distinct:
  "length (find_active demo_state ''form_42'' SUBMISSION_CREATED) = 2 \<and>
   \<not> distinct (delivery_ids
       (snd (trigger_webhooks demo_env demo_state ''form_42'' SUBMISSION_CREATED JNull)))"
  by (simp add: demo_found demo_delivery_ids)

text \<open>
  C1 (amended): a call of \<^verbatim>\<open>trigger_webhooks\<close> that finds a subscription draws exactly
  one UUID (none otherwise), which is the delivery id of the one envelope it prepares.
  Every POST that the call issues has the serialisation of that same envelope as its
  body and that same UUID in \<^verbatim>\<open>X-Formerr-Delivery\<close>; the POSTs issued earlier stay as
  they were.
\<close>

theorem trigger_webhooks_one_delivery_id:
  assumes "trigger_webhooks e s fid ev d = (out, s')"
  shows "take (length (sent s)) (sent s') = sent s \<and>
         uuid_calls s' =
           (if db_fault_at e (db_calls s) = None \<and> find_active s fid ev \<noteq> []
            then Suc (uuid_calls s) else uuid_calls s) \<and>
         p_delivery_id (envelope e s fid ev d) = uuid4_at e (uuid_calls s) \<and>
         (\<forall>r \<in> set (drop (length (sent s)) (sent s')).
            json_dumps e (envelope e s fid ev d) = Inr (q_content r) \<and>
            q_headers r ''X-Formerr-Delivery'' = Some (uuid4_at e (uuid_calls s)))"
proof -
  have pd: "p_delivery_id (envelope e s fid ev d) = uuid4_at e (uuid_calls s)"
    by (simp add: envelope_def prepare_payload_eq)
  have "take (length (sent s)) (sent s') = sent s \<and>
         (\<forall>r \<in> set (drop (length (sent s)) (sent s')).
            json_dumps e (envelope e s fid ev d) = Inr (q_content r) \<and>
            q_headers r ''X-Formerr-Delivery'' = Some (uuid4_at e (uuid_calls s)))"
    using trigger_webhooks_cases [OF assms]
  proof (elim disjE exE conjE)
    fix rs ws' s3
    assume l: "deliver_loop e (envelope e s fid ev d) (find_active s fid ev)
                  (s\<lparr>db_calls := Suc (db_calls s), now_calls := Suc (now_calls s),
                     uuid_calls := Suc (uuid_calls s)\<rparr>) = (rs, ws', s3)"
      and s: "sent s' = sent s3"
    from deliver_loop_requests [OF l] s
    have "\<forall>r \<in> set (drop (length (sent s)) (sent s')).
            json_dumps e (envelope e s fid ev d) = Inr (q_content r)"
      by (auto dest: build_request_content)
    with deliver_loop_sent [OF l] s pd show ?thesis by simp
  qed simp_all
  with pd trigger_webhooks_uuid_calls [OF assms] show ?thesis by simp
qed

text \<open>
  C1, instance: the two POSTs of the worked scenario have the same body and the same
  delivery id, and one UUID was drawn.
\<close>

theorem trigger_webhooks_one_delivery_id_witness:
  "length (sent (snd (trigger_webhooks demo_env demo_state ''form_42'' SUBMISSION_CREATED JNull))) = 2 \<and>
   uuid_calls (snd (trigger_webhooks demo_env demo_state ''form_42'' SUBMISSION_CREATED JNull)) = 1 \<and>
   list_all (\<lambda>r. json_dumps demo_env demo_payload = Inr (q_content r) \<and>
                 q_content r = ''submission.created uuid-'' \<and>
                 q_headers r ''X-Formerr-Delivery'' = Some ''uuid-'')
     (sent (snd (trigger_webhooks demo_env demo_state ''form_42'' SUBMISSION_CREATED JNull)))"
proof -
  let ?T = "trigger_webhooks demo_env demo_state ''form_42'' SUBMISSION_CREATED JNull"
  have len: "length (sent (snd ?T)) = 2"
    using arg_cong [OF demo_delivery_ids, of length] by (simp add: delivery_ids_def)
  have c: "list_all (\<lambda>r. q_content r = ''submission.created uuid-'') (sent (snd ?T))"
    using demo_contents by (auto simp: list_all_iff)
  have "sent demo_state = []" "uuid4_at demo_env (uuid_calls demo_state) = ''uuid-''"
    "uuid_calls demo_state = 0" "db_fault_at demo_env (db_calls demo_state) = None"
    by (simp_all add: demo_defs)
  with len c demo_found trigger_webhooks_one_delivery_id [of demo_env demo_state "''form_42''"
      SUBMISSION_CREATED JNull "fst ?T" "snd ?T"]
  show ?thesis by (simp add: list_all_iff demo_payload_def)
qed

section \<open>The signature covers the bytes sent\<close>

text \<open>
  C2: when the secret is neither \<^verbatim>\<open>None\<close> nor empty and a POST is issued, its
  \<^verbatim>\<open>content\<close> is the one string that \<^verbatim>\<open>json.dumps\<close> returned, and its
  \<^verbatim>\<open>X-Formerr-Signature\<close> header is \<^verbatim>\<open>sha256=\<close> followed by the hex digest of the
  HMAC-SHA256, keyed by the UTF-8 bytes of the secret, of the UTF-8 bytes of that same
  content (the bytes httpx puts on the wire for a \<^verbatim>\<open>str\<close> content). The digest is
  written with two digits out of \<^verbatim>\<open>0123456789abcdef\<close> for each byte.
\<close>

theorem send_webhook_signature:
  assumes "secret w = Some sec" "sec \<noteq> []" "send_webhook e s w p = (Inr res, s')"
  shows "\<exists>req key body.
           sent s' = sent s @ [req] \<and>
           json_dumps e p = Inr (q_content req) \<and>
           utf8_encode e sec = Inr key \<and>
           utf8_encode e (q_content req) = Inr body \<and>
           q_headers req ''X-Formerr-Signature'' =
             Some (''sha256='' @ hexdigest (hmac_sha256 e key body)) \<and>
           set (hexdigest (hmac_sha256 e key body)) \<subseteq> set ''0123456789abcdef'' \<and>
           length (hexdigest (hmac_sha256 e key body)) = 2 * length (hmac_sha256 e key body)"
proof -
  from send_webhook_cases [OF assms(3)] obtain req where
    b: "build_request e w p = Inr req" and s': "s' = s\<lparr>sent := sent s @ [req]\<rparr>" by auto
  from b obtain body_str h where d: "json_dumps e p = Inr body_str"
    and a: "add_signature e w body_str (base_headers p) = Inr h"
    and r: "req = \<lparr>q_url = url w, q_content = body_str, q_headers = h\<rparr>"
    by (auto simp: build_request_def split: sum.splits)
  from add_signature_signed [OF assms(1,2) a] obtain key msg where
    k: "utf8_encode e sec = Inr key" and m: "utf8_encode e body_str = Inr msg"
    and h: "h = (base_headers p)(''X-Formerr-Signature'' \<mapsto>
                  ''sha256='' @ hexdigest (hmac_sha256 e key msg))" by blast
  from s' d r k m h hexdigest_lower [of "hmac_sha256 e key msg"]
    hexdigest_length [of "hmac_sha256 e key msg"]
  show ?thesis by auto
qed

text \<open>
  C2, instance: the signed subscription of the worked scenario.
\<close>

theorem send_webhook_signature_witness:
  "secret hook_a = Some ''whsec_abc'' \<and> ''whsec_abc'' \<noteq> [] \<and>
   (\<exists>res s' req key body.
      send_webhook demo_env demo_state hook_a demo_payload = (Inr res, s') \<and>
      sent s' = sent demo_state @ [req] \<and>
      utf8_encode demo_env ''whsec_abc'' = Inr key \<and>
      utf8_encode demo_env (q_content req) = Inr body \<and>
      q_headers req ''X-Formerr-Signature'' =
        Some (''sha256='' @ hexdigest (hmac_sha256 demo_env key body)))"
proof -
  have h: "secret hook_a = Some ''whsec_abc''" "''whsec_abc'' \<noteq> []"
    by (simp_all add: hook_a_def)
  obtain res s' where r: "send_webhook demo_env demo_state hook_a demo_payload = (Inr res, s')"
    by (simp add: send_webhook_def build_request_def add_signature_def create_signature_def
          demo_payload_def envelope_def prepare_payload_def utcnow_def uuid4_def demo_defs)
  from send_webhook_signature [OF h r] h r show ?thesis by blast
qed

section \<open>Delivery errors stay in the result list\<close>




section \<open>A failing commit of the bookkeeping\<close>

text \<open>
  C4 (as stated, refuted): in the worked scenario with a commit that raises,
  \<^verbatim>\<open>trigger_webhooks\<close> does not return the result list: the exception of the commit
  reaches the caller.
\<close>

theorem trigger_webhooks_commit_failure_raises:
  "fst (trigger_webhooks commit_fails_env demo_state ''form_42'' SUBMISSION_CREATED JNull)
     = Inl (OtherException ''commit failed'')"
  by (simp add: run_defs demo_defs commit_fails_env_def)

text \<open>
  C4 (amended): \<^verbatim>\<open>await db.commit()\<close> stands outside every \<^verbatim>\<open>try\<close> of
  \<^verbatim>\<open>trigger_webhooks\<close>. When the query succeeded and found a subscription, an exception
  of the commit is the outcome of the call, and the stored rows are as before.
\<close>

theorem trigger_webhooks_commit_failure_propagates:
  assumes "db_fault_at e (db_calls s) = None" "find_active s fid ev \<noteq> []"
    "db_fault_at e (Suc (db_calls s)) = Some x"
  shows "fst (trigger_webhooks e s fid ev d) = Inl x \<and>
         webhooks (snd (trigger_webhooks e s fid ev d)) = webhooks s"
proof -
  obtain out s' where t: "trigger_webhooks e s fid ev d = (out, s')" by (metis surj_pair)
  from trigger_webhooks_cases [OF t] assms have "out = Inl x \<and> webhooks s' = webhooks s"
    by auto
  with t show ?thesis by simp
qed

text \<open>
  C4, instance: the worked scenario with a commit that raises.
\<close>

theorem trigger_webhooks_commit_failure_propagates_witness:
  "db_fault_at commit_fails_env (db_calls demo_state) = None \<and>
   find_active demo_state ''form_42'' SUBMISSION_CREATED \<noteq> [] \<and>
   db_fault_at commit_fails_env (Suc (db_calls demo_state)) = Some (OtherException ''commit failed'') \<and>
   fst (trigger_webhooks commit_fails_env demo_state ''form_42'' SUBMISSION_CREATED (JInt 1))
     = Inl (OtherException ''commit failed'') \<and>
   webhooks (snd (trigger_webhooks commit_fails_env demo_state ''form_42'' SUBMISSION_CREATED (JInt 1)))
     = webhooks demo_state"
proof -
  have h: "db_fault_at commit_fails_env (db_calls demo_state) = None"
    "find_active demo_state ''form_42'' SUBMISSION_CREATED \<noteq> []"
    "db_fault_at commit_fails_env (Suc (db_calls demo_state)) = Some (OtherException ''commit failed'')"
    by (simp_all add: demo_found) (simp_all add: commit_fails_env_def demo_defs)
  from h trigger_webhooks_commit_failure_propagates [OF h, of "JInt 1"] show ?thesis by simp
qed

section \<open>The submission is kept whatever the dispatch does\<close>

text \<open>
  C5: once the save part of \<^verbatim>\<open>create_submission\<close> has succeeded, the function returns
  the new submission and the table holds it, whatever \<^verbatim>\<open>trigger_webhooks\<close> returns or
  raises: for every behaviour of the network and of the later session operations.
\<close>

theorem create_submission_survives_dispatch:
  assumes "save_submission e s fid a sd = (Inr sub, s1)"
  shows "\<exists>s'. create_submission e s fid a sd = (Inr sub, s') \<and>
           submissions s' = submissions s @ [sub]"
proof -
  obtain out s2 where
    t: "trigger_webhooks e s1 fid SUBMISSION_CREATED (submission_payload e sub) = (out, s2)"
    by (metis surj_pair)
  from trigger_webhooks_cases [OF t] have "submissions s2 = submissions s1" by auto
  with save_submission_saved [OF assms] have sub: "submissions s2 = submissions s @ [sub]" by simp
  from assms t have "create_submission e s fid a sd = (Inr sub, s2)"
    by (cases out) (simp_all add: create_submission_def)
  with sub show ?thesis by simp
qed

text \<open>
  C5, instance: no endpoint can be reached and the commit of the dispatch raises, so that
  \<^verbatim>\<open>trigger_webhooks\<close> raises; the submission is returned and stored all the same.
\<close>

theorem create_submission_survives_dispatch_witness:
  "fst (save_submission dispatch_down_env demo_state ''form_42'' [JStr ''yes'']
          (Some [''email'' \<mapsto> JStr ''a@b.c''])) = Inr demo_submission \<and>
   fst (trigger_webhooks dispatch_down_env
         (snd (save_submission dispatch_down_env demo_state ''form_42'' [JStr ''yes'']
            (Some [''email'' \<mapsto> JStr ''a@b.c''])))
         ''form_42'' SUBMISSION_CREATED (submission_payload dispatch_down_env demo_submission))
     = Inl (OtherException ''commit failed'') \<and>
   (\<exists>s'. create_submission dispatch_down_env demo_state ''form_42'' [JStr ''yes'']
            (Some [''email'' \<mapsto> JStr ''a@b.c'']) = (Inr demo_submission, s') \<and>
          submissions s' = [demo_submission])"
proof -
  let ?S = "save_submission dispatch_down_env demo_state ''form_42'' [JStr ''yes'']
          (Some [''email'' \<mapsto> JStr ''a@b.c''])"
  from demo_save have s: "?S = (Inr demo_submission, snd ?S)" by (metis prod.collapse)
  have "submissions demo_state = []" by (simp add: demo_state_def)
  with create_submission_survives_dispatch [OF s] demo_save demo_dispatch_fails show ?thesis by simp
qed

section \<open>The outcome of one delivery attempt\<close>

text \<open>
  C6 (as stated, refuted): the result of a response with status 500 has no
  \<^verbatim>\<open>error\<close> entry at all, so no classification \<^verbatim>\<open>non-2xx\<close>; the result of a refused
  connection has the text of the exception as its \<^verbatim>\<open>error\<close>, not the word
  \<^verbatim>\<open>network\<close>.
\<close>

theorem send_webhook_no_classification:
  "fst (send_webhook rejecting_env demo_state hook_b demo_payload) =
     Inr \<lparr>r_webhook_id = Some ''webhook_b'', r_success = False,
          r_status_code = Some 500, r_response_time_ms = Some 12,
          r_url = Some ''https://b.example/hook'',
          r_delivery_id = Some ''uuid-'', r_error = None\<rparr> \<and>
   fst (send_webhook rejecting_env demo_state hook_a demo_payload) =
     Inr \<lparr>r_webhook_id = Some ''webhook_a'', r_success = False,
          r_status_code = None, r_response_time_ms = None,
          r_url = Some ''https://a.example/hook'',
          r_delivery_id = None, r_error = Some ''ConnectError''\<rparr>"
  by (simp add: send_webhook_def build_request_def add_signature_def create_signature_def
        demo_payload_def envelope_def prepare_payload_eq rejecting_env_def demo_defs)

text \<open>
  C6 (amended): when a request could be built, \<^verbatim>\<open>_send_webhook\<close> returns a result that
  names the subscription and its URL. A response yields \<^verbatim>\<open>success = status_code < 400\<close>
  with the status code and the elapsed time and no \<^verbatim>\<open>error\<close> entry, also when the
  status is 400 or more; an \<^verbatim>\<open>httpx.TimeoutException\<close> yields a failure with
  \<^verbatim>\<open>error = "timeout"\<close> and no status code; any other exception of the POST yields a
  failure whose \<^verbatim>\<open>error\<close> is \<^verbatim>\<open>str(e)\<close>, with no status code.
\<close>

theorem send_webhook_outcomes:
  assumes "build_request e w p = Inr req"
  shows "\<exists>res. fst (send_webhook e s w p) = Inr res \<and>
           r_webhook_id res = Some (wh_id w) \<and> r_url res = Some (url w) \<and>
           (case post_at e (length (sent s)) req of
              Response c ms \<Rightarrow>
                r_success res = (c < 400) \<and> r_status_code res = Some c \<and>
                r_response_time_ms res = Some ms \<and> r_error res = None
            | Raised (TimeoutException m) \<Rightarrow>
                \<not> r_success res \<and> r_status_code res = None \<and>
                r_response_time_ms res = None \<and> r_error res = Some ''timeout''
            | Raised (OtherException m) \<Rightarrow>
                \<not> r_success res \<and> r_status_code res = None \<and>
                r_response_time_ms res = None \<and> r_error res = Some m)"
  using assms
  by (auto simp: send_webhook_def split: http_outcome.splits exn.splits)

text \<open>
  C6, instance: the endpoint that answers 500.
\<close>

theorem send_webhook_outcomes_witness:
  "(\<exists>req. build_request rejecting_env hook_b demo_payload = Inr req \<and>
      post_at rejecting_env (length (sent demo_state)) req = Response 500 12) \<and>
   (\<exists>res. fst (send_webhook rejecting_env demo_state hook_b demo_payload) = Inr res \<and>
      \<not> r_success res \<and> r_status_code res = Some 500 \<and> r_error res = None)"
proof -
  obtain req where b: "build_request rejecting_env hook_b demo_payload = Inr req"
    and q: "q_url req = ''https://b.example/hook''"
    by (simp add: build_request_def add_signature_def rejecting_env_def demo_defs)
  from q have o: "post_at rejecting_env (length (sent demo_state)) req = Response 500 12"
    by (simp add: rejecting_env_def demo_defs)
  from send_webhook_outcomes [OF b, of demo_state] o b show ?thesis by auto
qed

section \<open>The failure counter after a dispatch\<close>

text \<open>
  C7: after \<^verbatim>\<open>trigger_webhooks\<close> has returned its results, the stored row of the
  \<open>i\<close>-th matching subscription has \<^verbatim>\<open>failure_count\<close> zero when its attempt
  succeeded, and its former value plus one when the attempt failed. Ids are the primary
  key of the table, hence distinct. (Lemma \<open>deliver_loop_nth\<close> says the same of the
  objects in memory, whether or not the commit succeeds.)
\<close>

theorem trigger_webhooks_failure_count:
  assumes "trigger_webhooks e s fid ev d = (Inr rs, s')"
    and "distinct (map wh_id (webhooks s))"
    and "i < length (find_active s fid ev)"
  shows "\<exists>w' \<in> set (webhooks s').
           wh_id w' = wh_id (find_active s fid ev ! i) \<and>
           failure_count w' =
             (if r_success (rs ! i) then 0 else failure_count (find_active s fid ev ! i) + 1)"
proof -
  let ?ws = "find_active s fid ev"
  from trigger_webhooks_cases [OF assms(1)] assms(3) show ?thesis
  proof (elim disjE exE conjE)
    fix rs2 ws' s3
    assume l: "deliver_loop e (envelope e s fid ev d) ?ws
                  (s\<lparr>db_calls := Suc (db_calls s), now_calls := Suc (now_calls s),
                     uuid_calls := Suc (uuid_calls s)\<rparr>) = (rs2, ws', s3)"
      and c: "case db_fault_at e (Suc (db_calls s)) of
                   Some x \<Rightarrow> Inr rs = Inl x \<and> webhooks s' = webhooks s
                 | None \<Rightarrow> Inr rs = Inr rs2 \<and> webhooks s' = store_webhooks ws' (webhooks s)"
    from c have rs: "rs2 = rs" and st: "webhooks s' = store_webhooks ws' (webhooks s)"
      by (simp_all split: option.splits)
    from deliver_loop_frame [OF l] assms(3) have i': "i < length ws'" by simp
    have ids: "map wh_id ws' = map wh_id ?ws" by (rule deliver_loop_ids [OF l])
    have "distinct (map wh_id ?ws)"
      unfolding find_active_def using assms(2) by (rule distinct_map_filter)
    with ids have d: "distinct (map wh_id ws')" by simp
    from deliver_loop_nth [OF l assms(3)] rs
    have fc: "failure_count (ws' ! i) =
               (if r_success (rs ! i) then 0 else failure_count (?ws ! i) + 1)"
      and id: "wh_id (ws' ! i) = wh_id (?ws ! i)" by simp_all
    have "?ws ! i \<in> set ?ws" using assms(3) by simp
    then have "?ws ! i \<in> set (webhooks s)" by (simp add: find_active_def)
    with id have "wh_id (ws' ! i) \<in> wh_id ` set (webhooks s)" by force
    with d i' have "ws' ! i \<in> set (store_webhooks ws' (webhooks s))"
      by (simp add: store_webhooks_mem)
    with st fc id show ?thesis by auto
  qed simp_all
qed

text \<open>
  C7, instance: subscription \<open>hook_a\<close> has never failed and now times out, its counter
  is one afterwards; subscription \<open>hook_b\<close> has failed three times and now succeeds, its
  counter is zero afterwards.
\<close>

theorem trigger_webhooks_failure_count_witness:
  "distinct (map wh_id (webhooks demo_state)) \<and>
   1 < length (find_active demo_state ''form_42'' SUBMISSION_CREATED) \<and>
   failure_count (find_active demo_state ''form_42'' SUBMISSION_CREATED ! 0) = 0 \<and>
   failure_count (find_active demo_state ''form_42'' SUBMISSION_CREATED ! 1) = 3 \<and>
   (\<exists>rs s'. trigger_webhooks demo_env demo_state ''form_42'' SUBMISSION_CREATED JNull = (Inr rs, s')
      \<and> \<not> r_success (rs ! 0) \<and> r_success (rs ! 1)
      \<and> (\<exists>w' \<in> set (webhooks s'). wh_id w' = ''webhook_a'' \<and> failure_count w' = 1)
      \<and> (\<exists>w' \<in> set (webhooks s'). wh_id w' = ''webhook_b'' \<and> failure_count w' = 0))"
proof -
  let ?T = "trigger_webhooks demo_env demo_state ''form_42'' SUBMISSION_CREATED JNull"
  obtain rs where rs: "fst ?T = Inr rs" "\<not> r_success (rs ! 0)" "r_success (rs ! 1)"
    using demo_results by simp
  then have t: "?T = (Inr rs, snd ?T)" by (metis prod.collapse)
  have h: "distinct (map wh_id (webhooks demo_state))"
    "1 < length (find_active demo_state ''form_42'' SUBMISSION_CREATED)"
    by (simp_all add: demo_found) (simp add: demo_defs)
  have h0: "0 < length (find_active demo_state ''form_42'' SUBMISSION_CREATED)"
    by (simp add: demo_found)
  have f: "failure_count (find_active demo_state ''form_42'' SUBMISSION_CREATED ! 0) = 0"
    "failure_count (find_active demo_state ''form_42'' SUBMISSION_CREATED ! 1) = 3"
    "wh_id (find_active demo_state ''form_42'' SUBMISSION_CREATED ! 0) = ''webhook_a''"
    "wh_id (find_active demo_state ''form_42'' SUBMISSION_CREATED ! 1) = ''webhook_b''"
    by (simp_all add: demo_found hook_a_def hook_b_def)
  from trigger_webhooks_failure_count [OF t h(1) h0] rs(2) f
  have a: "\<exists>w' \<in> set (webhooks (snd ?T)). wh_id w' = ''webhook_a'' \<and> failure_count w' = 1"
    by simp
  from trigger_webhooks_failure_count [OF t h] rs(3) f
  have b: "\<exists>w' \<in> set (webhooks (snd ?T)). wh_id w' = ''webhook_b'' \<and> failure_count w' = 0"
    by simp
  from t rs(2,3) h f(1,2) a b show ?thesis by blast
qed

section \<open>Attempts are independent\<close>

text \<open>
  C8: the \<open>i\<close>-th result returned by \<^verbatim>\<open>trigger_webhooks\<close> is determined by the
  \<open>i\<close>-th subscription alone: by its own request and by what the network answers to its
  own POST. What happened to the other subscriptions only decides the position of that
  POST in the sequence of POSTs; their timeouts, faults and rejections neither remove
  nor change the result.
\<close>

theorem trigger_webhooks_independent_results:
  assumes "trigger_webhooks e s fid ev d = (Inr rs, s')" "i < length (find_active s fid ev)"
  shows "rs ! i = outcome_result e (envelope e s fid ev d) (find_active s fid ev ! i)
                    (length (sent s) + posts_before e (envelope e s fid ev d) (find_active s fid ev) i)"
proof -
  from trigger_webhooks_cases [OF assms(1)] assms(2) show ?thesis
  proof (elim disjE exE conjE)
    fix rs2 ws' s3
    assume l: "deliver_loop e (envelope e s fid ev d) (find_active s fid ev)
                  (s\<lparr>db_calls := Suc (db_calls s), now_calls := Suc (now_calls s),
                     uuid_calls := Suc (uuid_calls s)\<rparr>) = (rs2, ws', s3)"
      and c: "case db_fault_at e (Suc (db_calls s)) of
                   Some x \<Rightarrow> Inr rs = Inl x \<and> webhooks s' = webhooks s
                 | None \<Rightarrow> Inr rs = Inr rs2 \<and> webhooks s' = store_webhooks ws' (webhooks s)"
    from c have "rs2 = rs" by (simp split: option.splits)
    with deliver_loop_nth [OF l assms(2)] show ?thesis by simp
  qed simp_all
qed

text \<open>
  C8, instance: endpoint A times out, endpoint B answers 200; the list holds the timeout
  of A and the success of B.
\<close>

theorem trigger_webhooks_independent_results_witness:
  "1 < length (find_active demo_state ''form_42'' SUBMISSION_CREATED) \<and>
   (\<exists>rs s'. trigger_webhooks demo_env demo_state ''form_42'' SUBMISSION_CREATED JNull = (Inr rs, s')
      \<and> r_error (rs ! 0) = Some ''timeout''
      \<and> rs ! 1 = \<lparr>r_webhook_id = Some ''webhook_b'', r_success = True,
           r_status_code = Some 200, r_response_time_ms = Some 12,
           r_url = Some ''https://b.example/hook'',
           r_delivery_id = Some ''uuid-'', r_error = None\<rparr>)"
proof -
  let ?T = "trigger_webhooks demo_env demo_state ''form_42'' SUBMISSION_CREATED JNull"
  obtain rs where rs: "fst ?T = Inr rs" "r_error (rs ! 0) = Some ''timeout''"
    using demo_results by simp
  then have t: "?T = (Inr rs, snd ?T)" by (metis prod.collapse)
  have h: "1 < length (find_active demo_state ''form_42'' SUBMISSION_CREATED)"
    by (simp add: demo_found)
  have "outcome_result demo_env (envelope demo_env demo_state ''form_42'' SUBMISSION_CREATED JNull)
          (find_active demo_state ''form_42'' SUBMISSION_CREATED ! 1)
          (length (sent demo_state) +
             posts_before demo_env (envelope demo_env demo_state ''form_42'' SUBMISSION_CREATED JNull)
               (find_active demo_state ''form_42'' SUBMISSION_CREATED) 1)
        = \<lparr>r_webhook_id = Some ''webhook_b'', r_success = True,
           r_status_code = Some 200, r_response_time_ms = Some 12,
           r_url = Some ''https://b.example/hook'',
           r_delivery_id = Some ''uuid-'', r_error = None\<rparr>"
    by (simp add: demo_found outcome_result_def posts_before_def built_def envelope_def
          run_defs demo_defs)
  with trigger_webhooks_independent_results [OF t h] have "rs ! 1 = \<lparr>r_webhook_id = Some ''webhook_b'', r_success = True,
           r_status_code = Some 200, r_response_time_ms = Some 12,
           r_url = Some ''https://b.example/hook'',
           r_delivery_id = Some ''uuid-'', r_error = None\<rparr>" by simp
  with t rs(2) h show ?thesis by blast
qed

section \<open>The headers of a delivery\<close>

text \<open>
  C9: every POST that \<^verbatim>\<open>_send_webhook\<close> issues carries \<^verbatim>\<open>Content-Type\<close>,
  \<^verbatim>\<open>User-Agent\<close>, and the event, delivery id and timestamp of the envelope under
  \<^verbatim>\<open>X-Formerr-Event\<close>, \<^verbatim>\<open>X-Formerr-Delivery\<close> and \<^verbatim>\<open>X-Formerr-Timestamp\<close>; the key
  \<^verbatim>\<open>X-Formerr-Signature\<close> is absent exactly when the secret is \<^verbatim>\<open>None\<close> or empty.
\<close>

theorem send_webhook_headers:
  "\<forall>req \<in> set (drop (length (sent s)) (sent (snd (send_webhook e s w p)))).
      q_headers req ''Content-Type'' = Some ''application/json'' \<and>
      q_headers req ''User-Agent'' = Some ''Formerr-Webhooks/1.0 (BrunoV7)'' \<and>
      q_headers req ''X-Formerr-Event'' = Some (p_event p) \<and>
      q_headers req ''X-Formerr-Delivery'' = Some (p_delivery_id p) \<and>
      q_headers req ''X-Formerr-Timestamp'' = Some (p_timestamp p) \<and>
      ((q_headers req ''X-Formerr-Signature'' = None) = (secret w = None \<or> secret w = Some []))"
proof -
  obtain out s' where t: "send_webhook e s w p = (out, s')" by (metis surj_pair)
  from send_webhook_cases [OF t] show ?thesis
  proof (elim disjE exE conjE)
    fix req assume b: "build_request e w p = Inr req" and s': "s' = s\<lparr>sent := sent s @ [req]\<rparr>"
    from build_request_base [OF b] t s' show ?thesis by simp
  qed (simp add: t)
qed

text \<open>
  C9, instance: the unsigned subscription of the worked scenario.
\<close>

theorem send_webhook_headers_witness:
  "drop (length (sent demo_state)) (sent (snd (send_webhook demo_env demo_state hook_b demo_payload))) \<noteq> [] \<and>
   list_all (\<lambda>req. q_headers req ''X-Formerr-Event'' = Some ''submission.created'' \<and>
                   q_headers req ''X-Formerr-Delivery'' = Some ''uuid-'' \<and>
                   q_headers req ''X-Formerr-Signature'' = None)
     (drop (length (sent demo_state)) (sent (snd (send_webhook demo_env demo_state hook_b demo_payload))))"
proof -
  have ne: "drop (length (sent demo_state))
              (sent (snd (send_webhook demo_env demo_state hook_b demo_payload))) \<noteq> []"
    by (simp add: send_webhook_def build_request_def add_signature_def demo_defs)
  have p: "p_event demo_payload = ''submission.created''" "p_delivery_id demo_payload = ''uuid-''"
    "secret hook_b = None"
    by (simp_all add: demo_payload_def envelope_def prepare_payload_eq demo_defs)
  from ne p send_webhook_headers [of demo_state demo_env hook_b demo_payload]
  show ?thesis by (simp add: list_all_iff)
qed

section \<open>The failure counter after a manual test\<close>

text \<open>
  C10: when \<^verbatim>\<open>test_webhook\<close> finds the subscription and returns the result of the
  delivery, the stored row is the former one with \<^verbatim>\<open>last_triggered\<close> set and with
  \<^verbatim>\<open>failure_count\<close> unchanged after a success (it is not reset), incremented by one
  after a failure.
\<close>

theorem test_webhook_failure_count:
  assumes "test_webhook e s wid owner = (Inr res, s')" "owned_webhooks s wid owner = [w]"
  shows "\<exists>t. webhooks s' =
               store_webhook
                 (w\<lparr>last_triggered := Some t,
                    failure_count := (if r_success res then failure_count w
                                      else failure_count w + 1)\<rparr>)
                 (webhooks s) \<and>
             w\<lparr>last_triggered := Some t,
               failure_count := (if r_success res then failure_count w
                                 else failure_count w + 1)\<rparr> \<in> set (webhooks s')"
proof -
  have ow: "owned_webhooks (s\<lparr>db_calls := Suc (db_calls s)\<rparr>) wid owner = [w]"
    using assms(2) by (simp add: owned_webhooks_def)
  from assms(1) ow obtain t where
    st: "webhooks s' = store_webhook (test_stats w t res) (webhooks s)"
    by (auto simp: test_webhook_def db_op_def utcnow_def uuid4_def send_webhook_def Let_def
          split: option.splits sum.splits prod.splits)
  have ts: "test_stats w t res =
              w\<lparr>last_triggered := Some t,
                failure_count := (if r_success res then failure_count w
                                  else failure_count w + 1)\<rparr>"
    by (simp add: test_stats_def)
  have "wh_id (test_stats w t res) \<in> wh_id ` set (webhooks s)"
    using owned_webhooks_mem [OF assms(2)] by (auto simp: ts)
  then have "test_stats w t res \<in> set (store_webhook (test_stats w t res) (webhooks s))"
    by (rule store_webhook_mem)
  with st ts show ?thesis by auto
qed

text \<open>
  C10, instance: \<open>hook_b\<close>, which has failed three times, passes a manual test and
  keeps the count three.
\<close>

theorem test_webhook_failure_count_witness:
  "owned_webhooks demo_state ''webhook_b'' 7 = [hook_b] \<and> failure_count hook_b = 3 \<and>
   (\<exists>res s' t. test_webhook demo_env demo_state ''webhook_b'' 7 = (Inr res, s') \<and>
      r_success res \<and>
      hook_b\<lparr>last_triggered := Some t, failure_count := 3\<rparr> \<in> set (webhooks s'))"
proof -
  let ?T = "test_webhook demo_env demo_state ''webhook_b'' 7"
  from demo_test obtain res where r: "fst ?T = Inr res" "r_success res"
    by (cases "fst ?T") auto
  then have t: "?T = (Inr res, snd ?T)" by (metis prod.collapse)
  have f: "failure_count hook_b = 3" by (simp add: hook_b_def)
  from test_webhook_failure_count [OF t demo_owned] r(2) f
  obtain tm where "hook_b\<lparr>last_triggered := Some tm, failure_count := 3\<rparr> \<in> set (webhooks (snd ?T))"
    by auto
  with t r(2) f demo_owned show ?thesis by blast
qed

end
